theory Spec2Isabelle
  imports Complex_Main
begin

section \<open>Python numbers and exceptions\<close>

text \<open>
  A coordinate is a Python number: a float, or an int (the JSON loader passes the
  numbers of its input on unconverted). The model does not fix their arithmetic. The
  type \<open>'n\<close> of the values and the operations on them are a parameter \<open>ar\<close> of the
  program: subtraction, addition, multiplication, division and \<^verbatim>\<open>math.sqrt\<close> return a
  value or raise, comparison returns a truth value. Rounding, underflow to zero,
  overflow to infinity, NaN, and the exceptions of int operands beyond the range of a
  double are all behaviours of such a parameter. What holds for every \<open>ar\<close> holds for
  the program on floats, on ints and on mixtures of both.

  The exceptions an arithmetic operation can raise are OverflowError (an int too large
  to convert to a float), ValueError (\<^verbatim>\<open>math.sqrt\<close> of a negative number) and
  ZeroDivisionError.
\<close>

datatype error = ValueError | IndexError | ZeroDivisionError | OverflowError | OSError

datatype arith_error = Overflow | Domain | ZeroDiv

definition raised :: "arith_error \<Rightarrow> error" where
  "raised a = (case a of Overflow \<Rightarrow> OverflowError | Domain \<Rightarrow> ValueError
                | ZeroDiv \<Rightarrow> ZeroDivisionError)"

record 'n arith =
  of_int_lit :: "int \<Rightarrow> 'n"
  a_sub :: "'n \<Rightarrow> 'n \<Rightarrow> arith_error + 'n"
  a_add :: "'n \<Rightarrow> 'n \<Rightarrow> arith_error + 'n"
  a_mul :: "'n \<Rightarrow> 'n \<Rightarrow> arith_error + 'n"
  a_div :: "'n \<Rightarrow> 'n \<Rightarrow> arith_error + 'n"
  a_sqrt :: "'n \<Rightarrow> arith_error + 'n"
  a_less :: "'n \<Rightarrow> 'n \<Rightarrow> bool"

definition as_error :: "arith_error + 'a \<Rightarrow> error + 'a" where
  "as_error r = (case r of Inl a \<Rightarrow> Inl (raised a) | Inr v \<Rightarrow> Inr v)"

definition py_sub :: "'n arith \<Rightarrow> 'n \<Rightarrow> 'n \<Rightarrow> error + 'n" where
  "py_sub ar u v = as_error (a_sub ar u v)"

definition py_add :: "'n arith \<Rightarrow> 'n \<Rightarrow> 'n \<Rightarrow> error + 'n" where
  "py_add ar u v = as_error (a_add ar u v)"

definition py_mul :: "'n arith \<Rightarrow> 'n \<Rightarrow> 'n \<Rightarrow> error + 'n" where
  "py_mul ar u v = as_error (a_mul ar u v)"

definition py_div :: "'n arith \<Rightarrow> 'n \<Rightarrow> 'n \<Rightarrow> error + 'n" where
  "py_div ar u v = as_error (a_div ar u v)"

definition py_sqrt :: "'n arith \<Rightarrow> 'n \<Rightarrow> error + 'n" where
  "py_sqrt ar v = as_error (a_sqrt ar v)"

definition e_bind :: "error + 'a \<Rightarrow> ('a \<Rightarrow> error + 'b) \<Rightarrow> error + 'b" where
  "e_bind r f = (case r of Inl e \<Rightarrow> Inl e | Inr a \<Rightarrow> f a)"

text \<open>
  \<^verbatim>\<open>min(...)\<close> and \<^verbatim>\<open>max(...)\<close> raise ValueError on an empty sequence; otherwise they keep
  the first extremum: a later item replaces the current one when it is smaller (for
  \<^verbatim>\<open>max\<close>: greater, that is, when the current one is smaller than it).
\<close>

fun py_min :: "'n arith \<Rightarrow> 'n list \<Rightarrow> error + 'n" where
  "py_min ar [] = Inl ValueError"
| "py_min ar (v # vs) = Inr (fold (\<lambda>b a. if a_less ar b a then b else a) vs v)"

fun py_max :: "'n arith \<Rightarrow> 'n list \<Rightarrow> error + 'n" where
  "py_max ar [] = Inl ValueError"
| "py_max ar (v # vs) = Inr (fold (\<lambda>b a. if a_less ar a b then b else a) vs v)"

text \<open>\<^verbatim>\<open>xs[i]\<close> for a non-negative literal index raises IndexError out of range.\<close>

definition py_index :: "'a list \<Rightarrow> nat \<Rightarrow> error + 'a" where
  "py_index xs i = (if i < length xs then Inr (xs ! i) else Inl IndexError)"

section \<open>Geometry model (step\_generator.py: Point3D, Line3D, B1Entity)\<close>

record 'n Point3D =
  px :: 'n
  py :: 'n
  pz :: 'n

record 'n Line3D =
  l_start :: "'n Point3D"
  l_end :: "'n Point3D"

record 'n B1Entity =
  points :: "'n Point3D list"
  lines :: "'n Line3D list"
  name :: string

text \<open>
  \<^verbatim>\<open>Line3D.length\<close>: the three differences, then
  \<^verbatim>\<open>math.sqrt(dx*dx + dy*dy + dz*dz)\<close> in Python's order of evaluation.
\<close>

definition line_length :: "'n arith \<Rightarrow> 'n Line3D \<Rightarrow> error + 'n" where
  "line_length ar l =
     e_bind (py_sub ar (px (l_end l)) (px (l_start l))) (\<lambda>dx.
     e_bind (py_sub ar (py (l_end l)) (py (l_start l))) (\<lambda>dy.
     e_bind (py_sub ar (pz (l_end l)) (pz (l_start l))) (\<lambda>dz.
     e_bind (py_mul ar dx dx) (\<lambda>xx.
     e_bind (py_mul ar dy dy) (\<lambda>yy.
     e_bind (py_add ar xx yy) (\<lambda>xy.
     e_bind (py_mul ar dz dz) (\<lambda>zz.
     e_bind (py_add ar xy zz) (\<lambda>s.
     py_sqrt ar s))))))))"

definition default_b1 :: "'n B1Entity" where
  "default_b1 = \<lparr>points = [], lines = [], name = ''B1''\<rparr>"

definition add_point :: "'n Point3D \<Rightarrow> 'n B1Entity \<Rightarrow> 'n B1Entity" where
  "add_point point b = b\<lparr>points := points b @ [point]\<rparr>"

definition add_line :: "'n Line3D \<Rightarrow> 'n B1Entity \<Rightarrow> 'n B1Entity" where
  "add_line line b = b\<lparr>lines := lines b @ [line]\<rparr>"

definition get_bounding_box :: "'n arith \<Rightarrow> 'n B1Entity \<Rightarrow> error + ('n Point3D \<times> 'n Point3D)" where
  "get_bounding_box ar b =
     (if points b = [] then
        Inr (\<lparr>px = of_int_lit ar 0, py = of_int_lit ar 0, pz = of_int_lit ar 0\<rparr>,
             \<lparr>px = of_int_lit ar 0, py = of_int_lit ar 0, pz = of_int_lit ar 0\<rparr>)
      else
        e_bind (py_min ar (map px (points b))) (\<lambda>min_x.
        e_bind (py_min ar (map py (points b))) (\<lambda>min_y.
        e_bind (py_min ar (map pz (points b))) (\<lambda>min_z.
        e_bind (py_max ar (map px (points b))) (\<lambda>max_x.
        e_bind (py_max ar (map py (points b))) (\<lambda>max_y.
        e_bind (py_max ar (map pz (points b))) (\<lambda>max_z.
        Inr (\<lparr>px = min_x, py = min_y, pz = min_z\<rparr>,
             \<lparr>px = max_x, py = max_y, pz = max_z\<rparr>))))))))"

section \<open>Entity records and the program state\<close>

text \<open>
  The source keeps each entity as the text \<^verbatim>\<open>#id = TYPE(attributes);\<close>. The model keeps
  the three parts apart: the identifier, the type tag and the attributes, the latter as
  the sequence of the comma-separated fields of the attribute text (the empty label
  \<^verbatim>\<open>''\<close>, a parenthesised coordinate triple, a reference \<^verbatim>\<open>#n\<close>, a number).
\<close>

datatype 'n attr = Label | Coords 'n 'n 'n | Ref int | Num 'n

record 'n entity =
  e_id :: int
  e_type :: string
  e_attrs :: "'n attr list"

text \<open>
  One write call on the output file: a fixed or formatted text, or the text of an
  entity followed by a newline.
\<close>

datatype 'n out_line = Text string | EntityLine "'n entity"

text \<open>
  Everything a call of \<^verbatim>\<open>generate_step_file\<close> can reach: the geometry object the caller
  passes by reference, the two fields of the generator, and the content of the output
  file.
\<close>

record 'n world =
  b1 :: "'n B1Entity"
  entity_counter :: int
  entities :: "'n entity list"
  out_file :: "'n out_line list"

text \<open>
  What the program does not control: which file names can be opened for writing, how
  many write calls succeed before the sink fails, whether closing succeeds, and the
  formatted time of \<^verbatim>\<open>datetime.now()\<close>.
\<close>

record env =
  can_open :: "string \<Rightarrow> bool"
  write_room :: nat
  can_close :: bool
  timestamp :: string

text \<open>
  A statement runs on the world and either returns a value or raises; both leave a world
  behind (what was mutated before an exception stays mutated).
\<close>

type_synonym ('n, 'a) prog = "'n world \<Rightarrow> (error + 'a) \<times> 'n world"

definition m_return :: "'a \<Rightarrow> ('n, 'a) prog" where
  "m_return a w = (Inr a, w)"

definition m_raise :: "error \<Rightarrow> ('n, 'a) prog" where
  "m_raise e w = (Inl e, w)"

definition m_bind :: "('n, 'a) prog \<Rightarrow> ('a \<Rightarrow> ('n, 'b) prog) \<Rightarrow> ('n, 'b) prog" where
  "m_bind m f w = (case m w of (Inl e, w') \<Rightarrow> (Inl e, w') | (Inr a, w') \<Rightarrow> f a w')"

definition m_get :: "('n world \<Rightarrow> 'a) \<Rightarrow> ('n, 'a) prog" where
  "m_get f w = (Inr (f w), w)"

definition m_modify :: "('n world \<Rightarrow> 'n world) \<Rightarrow> ('n, unit) prog" where
  "m_modify f w = (Inr (), f w)"

definition m_lift :: "error + 'a \<Rightarrow> ('n, 'a) prog" where
  "m_lift r w = (r, w)"

text \<open>A \<^verbatim>\<open>for\<close> loop over a list, with the local variables it updates as accumulator.\<close>

fun for_loop :: "'a list \<Rightarrow> 'c \<Rightarrow> ('a \<Rightarrow> 'c \<Rightarrow> ('n, 'c) prog) \<Rightarrow> ('n, 'c) prog" where
  "for_loop [] acc body = m_return acc"
| "for_loop (v # vs) acc body = m_bind (body v acc) (\<lambda>acc'. for_loop vs acc' body)"

section \<open>The generator (step\_generator.py: STEPGenerator)\<close>

definition next_id :: "('n, int) prog" where
  "next_id =
     m_bind (m_get entity_counter) (\<lambda>current.
     m_bind (m_modify (\<lambda>w. w\<lparr>entity_counter := entity_counter w + 1\<rparr>)) (\<lambda>_.
     m_return current))"

definition add_entity :: "string \<Rightarrow> 'n attr list \<Rightarrow> ('n, int) prog" where
  "add_entity entity_type attributes =
     m_bind next_id (\<lambda>entity_id.
     m_bind (m_modify (\<lambda>w. w\<lparr>entities := entities w @
               [\<lparr>e_id = entity_id, e_type = entity_type, e_attrs = attributes\<rparr>]\<rparr>)) (\<lambda>_.
     m_return entity_id))"

definition cartesian_point :: "'n Point3D \<Rightarrow> ('n, int) prog" where
  "cartesian_point point =
     add_entity ''CARTESIAN_POINT'' [Label, Coords (px point) (py point) (pz point)]"

definition direction :: "'n \<Rightarrow> 'n \<Rightarrow> 'n \<Rightarrow> ('n, int) prog" where
  "direction dx dy dz = add_entity ''DIRECTION'' [Label, Coords dx dy dz]"

definition vector :: "int \<Rightarrow> 'n \<Rightarrow> ('n, int) prog" where
  "vector direction_id magnitude = add_entity ''VECTOR'' [Label, Ref direction_id, Num magnitude]"

definition line :: "int \<Rightarrow> int \<Rightarrow> ('n, int) prog" where
  "line start_point_id vector_id = add_entity ''LINE'' [Label, Ref start_point_id, Ref vector_id]"

text \<open>The body of the loop over \<^verbatim>\<open>b1.lines[:4]\<close> in \<^verbatim>\<open>_generate_surfaces_from_lines\<close>.\<close>

definition surface_points_body :: "'n Line3D \<Rightarrow> int list \<Rightarrow> ('n, int list) prog" where
  "surface_points_body a_line point_ids =
     m_bind (cartesian_point (l_start a_line)) (\<lambda>start_id.
     m_bind (cartesian_point (l_end a_line)) (\<lambda>end_id.
     m_return (point_ids @ [start_id, end_id])))"

definition generate_surfaces_from_lines :: "'n arith \<Rightarrow> ('n, int list) prog" where
  "generate_surfaces_from_lines ar =
     m_bind (m_get (\<lambda>w. lines (b1 w))) (\<lambda>b1_lines.
     if length b1_lines \<ge> 3 then
       m_bind (for_loop (take 4 b1_lines) [] surface_points_body) (\<lambda>point_ids.
       if length point_ids \<ge> 4 then
         m_bind (m_lift (py_index point_ids 0)) (\<lambda>origin_id.
         m_bind (direction (of_int_lit ar 0) (of_int_lit ar 0) (of_int_lit ar 1)) (\<lambda>normal_dir_id.
         m_bind (add_entity ''PLANE'' [Label, Ref origin_id, Ref normal_dir_id]) (\<lambda>plane_id.
         m_return ([] @ [plane_id]))))
       else m_return [])
     else m_return [])"

text \<open>The list comprehension that emits the corner points.\<close>

definition corner_body :: "'n Point3D \<Rightarrow> int list \<Rightarrow> ('n, int list) prog" where
  "corner_body pt corner_ids =
     m_bind (cartesian_point pt) (\<lambda>corner_id. m_return (corner_ids @ [corner_id]))"

text \<open>
  The attribute text of the BLOCK is formatted before \<^verbatim>\<open>_add_entity\<close> is called: first
  \<^verbatim>\<open>corner_ids[0]\<close>, then the three extents, each a subtraction.
\<close>

definition generate_solid_from_surfaces :: "'n arith \<Rightarrow> int list \<Rightarrow> ('n, int option) prog" where
  "generate_solid_from_surfaces ar surface_ids =
     (if surface_ids = [] then m_return None
      else
        m_bind (m_get b1) (\<lambda>b.
        m_bind (m_lift (get_bounding_box ar b)) (\<lambda>(min_pt, max_pt).
        let corners =
              [\<lparr>px = px min_pt, py = py min_pt, pz = pz min_pt\<rparr>,
               \<lparr>px = px max_pt, py = py min_pt, pz = pz min_pt\<rparr>,
               \<lparr>px = px max_pt, py = py max_pt, pz = pz min_pt\<rparr>,
               \<lparr>px = px min_pt, py = py max_pt, pz = pz min_pt\<rparr>,
               \<lparr>px = px min_pt, py = py min_pt, pz = pz max_pt\<rparr>,
               \<lparr>px = px max_pt, py = py min_pt, pz = pz max_pt\<rparr>,
               \<lparr>px = px max_pt, py = py max_pt, pz = pz max_pt\<rparr>,
               \<lparr>px = px min_pt, py = py max_pt, pz = pz max_pt\<rparr>]
        in
        m_bind (for_loop corners [] corner_body) (\<lambda>corner_ids.
        m_bind (m_lift (py_index corner_ids 0)) (\<lambda>corner0.
        m_bind (m_lift (py_sub ar (px max_pt) (px min_pt))) (\<lambda>ex.
        m_bind (m_lift (py_sub ar (py max_pt) (py min_pt))) (\<lambda>ey.
        m_bind (m_lift (py_sub ar (pz max_pt) (pz min_pt))) (\<lambda>ez.
        m_bind (add_entity ''BLOCK'' [Label, Ref corner0, Num ex, Num ey, Num ez]) (\<lambda>solid_id.
        m_return (Some solid_id))))))))))"

text \<open>The body of the loop over \<^verbatim>\<open>b1.points\<close> in \<^verbatim>\<open>generate_step_file\<close>.\<close>

definition points_body :: "'n Point3D \<Rightarrow> int list \<Rightarrow> ('n, int list) prog" where
  "points_body point point_ids =
     m_bind (cartesian_point point) (\<lambda>point_id. m_return (point_ids @ [point_id]))"

text \<open>
  The body of the loop over \<^verbatim>\<open>b1.lines\<close> in \<^verbatim>\<open>generate_step_file\<close>. The test
  \<^verbatim>\<open>magnitude > 0\<close> compares with the int literal 0.
\<close>

definition lines_body :: "'n arith \<Rightarrow> 'n Line3D \<Rightarrow> int list \<Rightarrow> ('n, int list) prog" where
  "lines_body ar a_line line_ids =
     m_bind (cartesian_point (l_start a_line)) (\<lambda>start_id.
     m_bind (m_lift (py_sub ar (px (l_end a_line)) (px (l_start a_line)))) (\<lambda>dx.
     m_bind (m_lift (py_sub ar (py (l_end a_line)) (py (l_start a_line)))) (\<lambda>dy.
     m_bind (m_lift (py_sub ar (pz (l_end a_line)) (pz (l_start a_line)))) (\<lambda>dz.
     m_bind (m_lift (line_length ar a_line)) (\<lambda>magnitude.
     if a_less ar (of_int_lit ar 0) magnitude then
       m_bind (m_lift (py_div ar dx magnitude)) (\<lambda>dx'.
       m_bind (m_lift (py_div ar dy magnitude)) (\<lambda>dy'.
       m_bind (m_lift (py_div ar dz magnitude)) (\<lambda>dz'.
       m_bind (direction dx' dy' dz') (\<lambda>direction_id.
       m_bind (vector direction_id magnitude) (\<lambda>vector_id.
       m_bind (line start_id vector_id) (\<lambda>line_id.
       m_return (line_ids @ [line_id])))))))
     else m_return line_ids)))))"

text \<open>
  \<^verbatim>\<open>open(filename, 'w')\<close> raises ValueError for a file name with an embedded NUL
  character, before the file system is asked, and the OSError of the operating system
  when the file cannot be opened; opening truncates the file. A write call appends or
  raises OSError; closing can raise OSError. Strings are byte strings: how the text is
  encoded is not modelled.
\<close>

definition f_open :: "env \<Rightarrow> string \<Rightarrow> ('n, unit) prog" where
  "f_open ev filename =
     (if CHR 0x00 \<in> set filename then m_raise ValueError
      else if can_open ev filename then m_modify (\<lambda>w. w\<lparr>out_file := []\<rparr>)
      else m_raise OSError)"

definition f_write :: "env \<Rightarrow> 'n out_line \<Rightarrow> ('n, unit) prog" where
  "f_write ev ol =
     m_bind (m_get (\<lambda>w. length (out_file w))) (\<lambda>n.
     if n < write_room ev then m_modify (\<lambda>w. w\<lparr>out_file := out_file w @ [ol]\<rparr>)
     else m_raise OSError)"

definition f_close :: "env \<Rightarrow> ('n, unit) prog" where
  "f_close ev = (if can_close ev then m_return () else m_raise OSError)"

definition nl :: string where
  "nl = [CHR 0x0A]"

definition sq :: string where
  "sq = [CHR 0x27]"

definition write_step_file :: "env \<Rightarrow> string \<Rightarrow> ('n, unit) prog" where
  "write_step_file ev filename =
     m_bind (f_open ev filename) (\<lambda>_.
     m_bind (f_write ev (Text (''ISO-10303-21;'' @ nl))) (\<lambda>_.
     m_bind (f_write ev (Text (''HEADER;'' @ nl))) (\<lambda>_.
     m_bind (f_write ev (Text (''FILE_DESCRIPTION(('' @ sq @ ''Generated STEP file for B1 entity''
                                @ sq @ ''),'' @ sq @ ''2;1'' @ sq @ '');'' @ nl))) (\<lambda>_.
     m_bind (f_write ev (Text (''FILE_NAME('' @ sq @ filename @ sq @ '','' @ sq @ timestamp ev @ sq
                                @ '',('' @ sq @ ''STEP Generator'' @ sq @ ''),('' @ sq
                                @ ''Python Script'' @ sq @ ''),'' @ sq @ sq @ '','' @ sq @ sq
                                @ '','' @ sq @ sq @ '');'' @ nl))) (\<lambda>_.
     m_bind (f_write ev (Text (''FILE_SCHEMA(('' @ sq @ ''AUTOMOTIVE_DESIGN'' @ sq @ ''));'' @ nl))) (\<lambda>_.
     m_bind (f_write ev (Text (''ENDSEC;'' @ nl @ nl))) (\<lambda>_.
     m_bind (f_write ev (Text (''DATA;'' @ nl))) (\<lambda>_.
     m_bind (m_get entities) (\<lambda>es.
     m_bind (for_loop es () (\<lambda>e _. f_write ev (EntityLine e))) (\<lambda>_.
     m_bind (f_write ev (Text (''ENDSEC;'' @ nl))) (\<lambda>_.
     m_bind (f_write ev (Text (''END-ISO-10303-21;'' @ nl))) (\<lambda>_.
     f_close ev))))))))))))"

definition generate_step_file :: "'n arith \<Rightarrow> env \<Rightarrow> string \<Rightarrow> ('n, unit) prog" where
  "generate_step_file ar ev filename =
     m_bind (m_modify (\<lambda>w. w\<lparr>entity_counter := 1\<rparr>)) (\<lambda>_.
     m_bind (m_modify (\<lambda>w. w\<lparr>entities := []\<rparr>)) (\<lambda>_.
     m_bind (m_get (\<lambda>w. points (b1 w))) (\<lambda>b1_points.
     m_bind (for_loop b1_points [] points_body) (\<lambda>point_ids.
     m_bind (m_get (\<lambda>w. lines (b1 w))) (\<lambda>b1_lines.
     m_bind (for_loop b1_lines [] (lines_body ar)) (\<lambda>line_ids.
     m_bind (generate_surfaces_from_lines ar) (\<lambda>surface_ids.
     m_bind (generate_solid_from_surfaces ar surface_ids) (\<lambda>solid_id.
     write_step_file ev filename))))))))"

section \<open>The records a step appends, as functions of the counter at its start\<close>

text \<open>
  The functions of this section are not part of the program. They name what each step of
  the generator is proved to do: the records it appends, and the exception it ends
  with, if any. The properties of the generated list are then stated and proved on
  plain lists.
\<close>

definition emitted :: "'n world \<Rightarrow> 'n entity list \<Rightarrow> 'n world" where
  "emitted w recs =
     w\<lparr>entity_counter := entity_counter w + int (length recs), entities := entities w @ recs\<rparr>"

definition mk :: "int \<Rightarrow> string \<Rightarrow> 'n attr list \<Rightarrow> 'n entity" where
  "mk i t a = \<lparr>e_id = i, e_type = t, e_attrs = a\<rparr>"

definition cp :: "int \<Rightarrow> 'n Point3D \<Rightarrow> 'n entity" where
  "cp i p = mk i ''CARTESIAN_POINT'' [Label, Coords (px p) (py p) (pz p)]"

fun point_records :: "int \<Rightarrow> 'n Point3D list \<Rightarrow> 'n entity list" where
  "point_records c [] = []"
| "point_records c (p # ps) = cp c p # point_records (c + 1) ps"

text \<open>
  The arithmetic of one pass through the loop over the segments: it raises, or the
  magnitude is not greater than zero (\<open>None\<close>), or it yields the unit direction and the
  magnitude.
\<close>

definition line_outcome :: "'n arith \<Rightarrow> 'n Line3D \<Rightarrow> error + ('n \<times> 'n \<times> 'n \<times> 'n) option" where
  "line_outcome ar l =
     e_bind (py_sub ar (px (l_end l)) (px (l_start l))) (\<lambda>dx.
     e_bind (py_sub ar (py (l_end l)) (py (l_start l))) (\<lambda>dy.
     e_bind (py_sub ar (pz (l_end l)) (pz (l_start l))) (\<lambda>dz.
     e_bind (line_length ar l) (\<lambda>m.
     if a_less ar (of_int_lit ar 0) m then
       e_bind (py_div ar dx m) (\<lambda>ux.
       e_bind (py_div ar dy m) (\<lambda>uy.
       e_bind (py_div ar dz m) (\<lambda>uz.
       Inr (Some (ux, uy, uz, m)))))
     else Inr None))))"

definition line_records :: "int \<Rightarrow> 'n Line3D \<Rightarrow> ('n \<times> 'n \<times> 'n \<times> 'n) option \<Rightarrow> 'n entity list" where
  "line_records c l q =
     (case q of
        None \<Rightarrow> [cp c (l_start l)]
      | Some (ux, uy, uz, m) \<Rightarrow>
          [cp c (l_start l),
           mk (c + 1) ''DIRECTION'' [Label, Coords ux uy uz],
           mk (c + 2) ''VECTOR'' [Label, Ref (c + 1), Num m],
           mk (c + 3) ''LINE'' [Label, Ref c, Ref (c + 2)]])"

text \<open>The loop over the segments stops at the first segment whose arithmetic raises.\<close>

fun lines_emitted :: "'n arith \<Rightarrow> int \<Rightarrow> 'n Line3D list \<Rightarrow> 'n entity list" where
  "lines_emitted ar c [] = []"
| "lines_emitted ar c (l # ls) =
     (case line_outcome ar l of
        Inl e \<Rightarrow> [cp c (l_start l)]
      | Inr q \<Rightarrow> line_records c l q @
                 lines_emitted ar (c + int (length (line_records c l q))) ls)"

fun lines_error :: "'n arith \<Rightarrow> 'n Line3D list \<Rightarrow> error option" where
  "lines_error ar [] = None"
| "lines_error ar (l # ls) =
     (case line_outcome ar l of Inl e \<Rightarrow> Some e | Inr q \<Rightarrow> lines_error ar ls)"

fun endpoint_records :: "int \<Rightarrow> 'n Line3D list \<Rightarrow> 'n entity list" where
  "endpoint_records c [] = []"
| "endpoint_records c (l # ls) =
     cp c (l_start l) # cp (c + 1) (l_end l) # endpoint_records (c + 2) ls"

definition surface_records :: "'n arith \<Rightarrow> int \<Rightarrow> 'n Line3D list \<Rightarrow> 'n entity list" where
  "surface_records ar c ls =
     (if length ls \<ge> 3 then
        (let n = 2 * int (length (take 4 ls)) in
         endpoint_records c (take 4 ls) @
         [mk (c + n) ''DIRECTION''
            [Label, Coords (of_int_lit ar 0) (of_int_lit ar 0) (of_int_lit ar 1)],
          mk (c + n + 1) ''PLANE'' [Label, Ref c, Ref (c + n)]])
      else [])"

definition box_corners :: "'n Point3D \<Rightarrow> 'n Point3D \<Rightarrow> 'n Point3D list" where
  "box_corners min_pt max_pt =
     [\<lparr>px = px min_pt, py = py min_pt, pz = pz min_pt\<rparr>,
      \<lparr>px = px max_pt, py = py min_pt, pz = pz min_pt\<rparr>,
      \<lparr>px = px max_pt, py = py max_pt, pz = pz min_pt\<rparr>,
      \<lparr>px = px min_pt, py = py max_pt, pz = pz min_pt\<rparr>,
      \<lparr>px = px min_pt, py = py min_pt, pz = pz max_pt\<rparr>,
      \<lparr>px = px max_pt, py = py min_pt, pz = pz max_pt\<rparr>,
      \<lparr>px = px max_pt, py = py max_pt, pz = pz max_pt\<rparr>,
      \<lparr>px = px min_pt, py = py max_pt, pz = pz max_pt\<rparr>]"

text \<open>The three extents of the bounding box, each a subtraction that can raise.\<close>

definition block_extents :: "'n arith \<Rightarrow> 'n B1Entity \<Rightarrow> error + ('n \<times> 'n \<times> 'n)" where
  "block_extents ar b =
     e_bind (get_bounding_box ar b) (\<lambda>(min_pt, max_pt).
     e_bind (py_sub ar (px max_pt) (px min_pt)) (\<lambda>ex.
     e_bind (py_sub ar (py max_pt) (py min_pt)) (\<lambda>ey.
     e_bind (py_sub ar (pz max_pt) (pz min_pt)) (\<lambda>ez.
     Inr (ex, ey, ez)))))"

definition solid_emitted :: "'n arith \<Rightarrow> int \<Rightarrow> 'n B1Entity \<Rightarrow> 'n entity list" where
  "solid_emitted ar c b =
     (case get_bounding_box ar b of
        Inl e \<Rightarrow> []
      | Inr (min_pt, max_pt) \<Rightarrow>
          point_records c (box_corners min_pt max_pt) @
          (case block_extents ar b of
             Inl e \<Rightarrow> []
           | Inr (ex, ey, ez) \<Rightarrow> [mk (c + 8) ''BLOCK'' [Label, Ref c, Num ex, Num ey, Num ez]]))"

definition step23_records :: "'n arith \<Rightarrow> 'n B1Entity \<Rightarrow> 'n entity list" where
  "step23_records ar b =
     point_records 1 (points b) @ lines_emitted ar (1 + int (length (points b))) (lines b)"

text \<open>
  The first exception that the coordinate arithmetic of a call raises, if any: in the
  loop over the segments, or, when a surface was produced, in the extents of the block.
\<close>

definition arith_error_of :: "'n arith \<Rightarrow> 'n B1Entity \<Rightarrow> error option" where
  "arith_error_of ar b =
     (case lines_error ar (lines b) of
        Some e \<Rightarrow> Some e
      | None \<Rightarrow>
          if 3 \<le> length (lines b)
          then (case block_extents ar b of Inl e \<Rightarrow> Some e | Inr x \<Rightarrow> None)
          else None)"

definition all_records :: "'n arith \<Rightarrow> 'n B1Entity \<Rightarrow> 'n entity list" where
  "all_records ar b =
     (let r23 = step23_records ar b in
      case lines_error ar (lines b) of
        Some e \<Rightarrow> r23
      | None \<Rightarrow>
          (let r4 = surface_records ar (1 + int (length r23)) (lines b) in
           r23 @ r4 @
           (if r4 = [] then []
            else solid_emitted ar (1 + int (length r23) + int (length r4)) b)))"

text \<open>The world when the generation of the records has ended, normally or not.\<close>

definition generated :: "'n arith \<Rightarrow> 'n world \<Rightarrow> 'n world" where
  "generated ar w = w\<lparr>entity_counter := 1 + int (length (all_records ar (b1 w))),
                       entities := all_records ar (b1 w)\<rparr>"

text \<open>The references of a record, and the number of records of one type.\<close>

fun attr_refs :: "'n attr list \<Rightarrow> int list" where
  "attr_refs [] = []"
| "attr_refs (Ref i # as) = i # attr_refs as"
| "attr_refs (a # as) = attr_refs as"

definition refs :: "'n entity \<Rightarrow> int list" where
  "refs e = attr_refs (e_attrs e)"

definition count_type :: "string \<Rightarrow> 'n entity list \<Rightarrow> nat" where
  "count_type t es = length (filter (\<lambda>e. e_type e = t) es)"



text \<open>The identifiers of a list of records are \<open>c\<close>, \<open>c + 1\<close>, ... in this order.\<close>

fun ids_from :: "int \<Rightarrow> 'n entity list \<Rightarrow> bool" where
  "ids_from c [] = True"
| "ids_from c (e # es) = (e_id e = c \<and> ids_from (c + 1) es)"

text \<open>The complete document, one element for each write call.\<close>

definition document :: "env \<Rightarrow> string \<Rightarrow> 'n entity list \<Rightarrow> 'n out_line list" where
  "document ev filename es =
     [Text (''ISO-10303-21;'' @ nl),
      Text (''HEADER;'' @ nl),
      Text (''FILE_DESCRIPTION(('' @ sq @ ''Generated STEP file for B1 entity''
            @ sq @ ''),'' @ sq @ ''2;1'' @ sq @ '');'' @ nl),
      Text (''FILE_NAME('' @ sq @ filename @ sq @ '','' @ sq @ timestamp ev @ sq
            @ '',('' @ sq @ ''STEP Generator'' @ sq @ ''),('' @ sq
            @ ''Python Script'' @ sq @ ''),'' @ sq @ sq @ '','' @ sq @ sq
            @ '','' @ sq @ sq @ '');'' @ nl),
      Text (''FILE_SCHEMA(('' @ sq @ ''AUTOMOTIVE_DESIGN'' @ sq @ ''));'' @ nl),
      Text (''ENDSEC;'' @ nl @ nl),
      Text (''DATA;'' @ nl)]
     @ map EntityLine es @
     [Text (''ENDSEC;'' @ nl), Text (''END-ISO-10303-21;'' @ nl)]"

section \<open>Three arithmetics and the concrete inputs\<close>

text \<open>
  Exact arithmetic on the reals: what Python computes wherever no rounding, underflow or
  overflow occurs, as in 10 - 0, 10 * 10, the root of 100 and 10 / 10.
\<close>

definition exact_arith :: "real arith" where
  "exact_arith =
     \<lparr>of_int_lit = real_of_int,
      a_sub = (\<lambda>u v. Inr (u - v)),
      a_add = (\<lambda>u v. Inr (u + v)),
      a_mul = (\<lambda>u v. Inr (u * v)),
      a_div = (\<lambda>u v. if v = 0 then Inl ZeroDiv else Inr (u / v)),
      a_sqrt = (\<lambda>v. if v < 0 then Inl Domain else Inr (sqrt v)),
      a_less = (\<lambda>u v. u < v)\<rparr>"


text \<open>
  Python on float coordinates where a product underflows: a product whose exact value
  is below \<open>2 ^ -1075\<close>, half the smallest positive double, is 0.0. (Other rounding is
  not modelled.)
\<close>

definition underflow_arith :: "real arith" where
  "underflow_arith =
     exact_arith\<lparr>a_mul := (\<lambda>u v. if \<bar>u * v\<bar> < 1 / 2 ^ 1075 then Inr 0 else Inr (u * v))\<rparr>"

text \<open>
  A generator as \<^verbatim>\<open>STEPGenerator.__init__\<close> leaves it, holding a given geometry; a sink
  that takes everything; the geometry of one point and one segment of length 10; a
  geometry of three segments of length zero at the origin, and one of three segments of
  length zero at three different places; three segments that end at \<open>10 ^ 155\<close>; and
  one segment that ends at \<open>2 ^ -600\<close>, which is a double.
\<close>

definition init_world :: "'n B1Entity \<Rightarrow> 'n world" where
  "init_world b = \<lparr>b1 = b, entity_counter = 1, entities = [], out_file = []\<rparr>"

definition good_env :: env where
  "good_env = \<lparr>can_open = (\<lambda>f. True), write_room = 1000, can_close = True,
                timestamp = ''2024-01-01T00:00:00''\<rparr>"

definition origin :: "real Point3D" where
  "origin = \<lparr>px = 0, py = 0, pz = 0\<rparr>"

definition scenario_b1 :: "real B1Entity" where
  "scenario_b1 =
     \<lparr>points = [origin],
      lines = [\<lparr>l_start = origin, l_end = \<lparr>px = 10, py = 0, pz = 0\<rparr>\<rparr>],
      name = ''B1''\<rparr>"





definition tiny_segment :: "real Line3D" where
  "tiny_segment = \<lparr>l_start = origin, l_end = \<lparr>px = 1 / 2 ^ 600, py = 0, pz = 0\<rparr>\<rparr>"

definition tiny_b1 :: "real B1Entity" where
  "tiny_b1 = \<lparr>points = [], lines = [tiny_segment], name = ''B1''\<rparr>"

section \<open>What each step of the generator does\<close>

lemma emitted_Nil: "emitted w [] = w"
  by (simp add: emitted_def)

lemma emitted_emitted: "emitted (emitted w r) r' = emitted w (r @ r')"
  by (simp add: emitted_def)

lemma emitted_fields:
  "entity_counter (emitted w r) = entity_counter w + int (length r)"
  "entities (emitted w r) = entities w @ r"
  "b1 (emitted w r) = b1 w"
  "out_file (emitted w r) = out_file w"
  by (simp_all add: emitted_def)

lemmas monad_defs = m_bind_def m_return_def m_get_def m_modify_def m_lift_def m_raise_def

lemma add_entity_run:
  "add_entity t a w = (Inr (entity_counter w), emitted w [mk (entity_counter w) t a])"
  by (simp add: add_entity_def next_id_def monad_defs emitted_def mk_def)

lemma cartesian_point_run:
  "cartesian_point p w = (Inr (entity_counter w), emitted w [cp (entity_counter w) p])"
  by (simp add: cartesian_point_def add_entity_run cp_def)

lemma points_body_run:
  "points_body p acc w = (Inr (acc @ [entity_counter w]), emitted w [cp (entity_counter w) p])"
  by (simp add: points_body_def m_bind_def cartesian_point_run m_return_def)

lemma points_loop_run:
  "for_loop ps acc points_body w =
     (Inr (acc @ map e_id (point_records (entity_counter w) ps)),
      emitted w (point_records (entity_counter w) ps))"
proof (induction ps arbitrary: acc w)
  case Nil
  then show ?case by (simp add: m_return_def emitted_Nil)
next
  case (Cons p ps)
  have "for_loop (p # ps) acc points_body w =
      for_loop ps (acc @ [entity_counter w]) points_body (emitted w [cp (entity_counter w) p])"
    using points_body_run [of p acc w] by (simp add: m_bind_def)
  then show ?case
    by (simp add: Cons.IH emitted_emitted emitted_fields cp_def mk_def)
qed

text \<open>
  One pass through the loop over the segments: the start point is appended in any case;
  the rest depends on the arithmetic alone.
\<close>

lemma lines_body_run:
  "lines_body ar l acc w =
     (case line_outcome ar l of
        Inl e \<Rightarrow> (Inl e, emitted w [cp (entity_counter w) (l_start l)])
      | Inr q \<Rightarrow> (Inr (case q of None \<Rightarrow> acc | Some t \<Rightarrow> acc @ [entity_counter w + 3]),
                 emitted w (line_records (entity_counter w) l q)))"
  by (simp add: lines_body_def line_outcome_def m_bind_def cartesian_point_run m_lift_def
      m_return_def e_bind_def direction_def vector_def line_def add_entity_run
      emitted_emitted emitted_fields line_records_def ac_simps
      split: sum.split)

lemma lines_body_raises:
  "line_outcome ar l = Inl e \<Longrightarrow>
   lines_body ar l acc w = (Inl e, emitted w [cp (entity_counter w) (l_start l)])"
  by (simp add: lines_body_run)

lemma lines_body_returns:
  "line_outcome ar l = Inr q \<Longrightarrow>
   \<exists>ids. lines_body ar l acc w = (Inr ids, emitted w (line_records (entity_counter w) l q))"
  by (simp add: lines_body_run)

lemma lines_loop_run:
  "case lines_error ar ls of
     Some e \<Rightarrow> for_loop ls acc (lines_body ar) w =
                (Inl e, emitted w (lines_emitted ar (entity_counter w) ls))
   | None \<Rightarrow> \<exists>ids. for_loop ls acc (lines_body ar) w =
                (Inr ids, emitted w (lines_emitted ar (entity_counter w) ls))"
proof (induction ls arbitrary: acc w)
  case Nil
  then show ?case by (simp add: m_return_def emitted_Nil)
next
  case (Cons l ls)
  show ?case
  proof (cases "line_outcome ar l")
    case (Inl e)
    then show ?thesis by (simp add: m_bind_def lines_body_raises)
  next
    case (Inr q)
    let ?w' = "emitted w (line_records (entity_counter w) l q)"
    obtain ids where b: "lines_body ar l acc w = (Inr ids, ?w')"
      using lines_body_returns [OF Inr] by blast
    have step: "for_loop (l # ls) acc (lines_body ar) w = for_loop ls ids (lines_body ar) ?w'"
      using b by (simp add: m_bind_def)
    have cnt: "entity_counter ?w' = entity_counter w + int (length (line_records (entity_counter w) l q))"
      by (simp add: emitted_fields)
    show ?thesis
      using Cons.IH [of ids ?w'] Inr
      by (simp only: step cnt lines_emitted.simps lines_error.simps sum.case emitted_emitted)
  qed
qed

lemma bind_lines_loop:
  "m_bind (for_loop ls acc (lines_body ar)) k w =
     (case lines_error ar ls of
        Some e \<Rightarrow> (Inl e, emitted w (lines_emitted ar (entity_counter w) ls))
      | None \<Rightarrow> k (projr (fst (for_loop ls acc (lines_body ar) w)))
                  (emitted w (lines_emitted ar (entity_counter w) ls)))"
proof (cases "lines_error ar ls")
  case None
  then obtain ids where "for_loop ls acc (lines_body ar) w =
      (Inr ids, emitted w (lines_emitted ar (entity_counter w) ls))"
    using lines_loop_run [where ar = ar and ls = ls and acc = acc and w = w] by auto
  with None show ?thesis by (simp add: m_bind_def)
next
  case (Some e)
  then have "for_loop ls acc (lines_body ar) w =
      (Inl e, emitted w (lines_emitted ar (entity_counter w) ls))"
    using lines_loop_run [where ar = ar and ls = ls and acc = acc and w = w] by simp
  with Some show ?thesis by (simp add: m_bind_def)
qed

lemma surface_points_body_run:
  "surface_points_body l acc w =
     (Inr (acc @ [entity_counter w, entity_counter w + 1]),
      emitted w [cp (entity_counter w) (l_start l), cp (entity_counter w + 1) (l_end l)])"
  by (simp add: surface_points_body_def m_bind_def cartesian_point_run m_return_def
      emitted_emitted emitted_fields)

lemma surface_points_loop_run:
  "for_loop ls acc surface_points_body w =
     (Inr (acc @ map e_id (endpoint_records (entity_counter w) ls)),
      emitted w (endpoint_records (entity_counter w) ls))"
proof (induction ls arbitrary: acc w)
  case Nil
  then show ?case by (simp add: m_return_def emitted_Nil)
next
  case (Cons l ls)
  have "for_loop (l # ls) acc surface_points_body w =
      for_loop ls (acc @ [entity_counter w, entity_counter w + 1]) surface_points_body
        (emitted w [cp (entity_counter w) (l_start l), cp (entity_counter w + 1) (l_end l)])"
    using surface_points_body_run [of l acc w] by (simp add: m_bind_def)
  then show ?case
    by (simp add: Cons.IH emitted_emitted emitted_fields cp_def mk_def)
qed

lemma length_endpoint_records: "length (endpoint_records c ls) = 2 * length ls"
  by (induction ls arbitrary: c) simp_all

lemma hd_endpoint_ids: "ls \<noteq> [] \<Longrightarrow> map e_id (endpoint_records c ls) ! 0 = c"
  by (cases ls) (simp_all add: cp_def mk_def)

lemma generate_surfaces_from_lines_run:
  "generate_surfaces_from_lines ar w =
     (Inr (if length (lines (b1 w)) \<ge> 3
           then [entity_counter w + 2 * int (length (take 4 (lines (b1 w)))) + 1] else []),
      emitted w (surface_records ar (entity_counter w) (lines (b1 w))))"
proof (cases "length (lines (b1 w)) \<ge> 3")
  case False
  then show ?thesis
    by (simp add: generate_surfaces_from_lines_def monad_defs surface_records_def emitted_Nil)
next
  case True
  then have ne: "take 4 (lines (b1 w)) \<noteq> []" by auto
  from True have len: "4 \<le> 2 * length (take 4 (lines (b1 w)))" by simp
  from True have ne': "lines (b1 w) \<noteq> []" by auto
  show ?thesis
    using True len ne' hd_endpoint_ids [OF ne, of "entity_counter w"]
    by (simp add: generate_surfaces_from_lines_def m_bind_def m_get_def surface_points_loop_run
        length_endpoint_records py_index_def m_lift_def direction_def add_entity_run
        emitted_emitted emitted_fields m_return_def surface_records_def Let_def ac_simps)
qed

lemma get_bounding_box_total: "\<exists>min_pt max_pt. get_bounding_box ar b = Inr (min_pt, max_pt)"
  by (cases "points b") (simp_all add: get_bounding_box_def e_bind_def)

lemma corner_body_run:
  "corner_body p acc w = (Inr (acc @ [entity_counter w]), emitted w [cp (entity_counter w) p])"
  by (simp add: corner_body_def m_bind_def cartesian_point_run m_return_def)

lemma corner_loop_run:
  "for_loop ps acc corner_body w =
     (Inr (acc @ map e_id (point_records (entity_counter w) ps)),
      emitted w (point_records (entity_counter w) ps))"
proof (induction ps arbitrary: acc w)
  case Nil
  then show ?case by (simp add: m_return_def emitted_Nil)
next
  case (Cons p ps)
  have "for_loop (p # ps) acc corner_body w =
      for_loop ps (acc @ [entity_counter w]) corner_body (emitted w [cp (entity_counter w) p])"
    using corner_body_run [of p acc w] by (simp add: m_bind_def)
  then show ?case
    by (simp add: Cons.IH emitted_emitted emitted_fields cp_def mk_def)
qed

text \<open>
  The solid step: nothing without a surface; otherwise the eight corners, and the BLOCK
  unless an extent raises.
\<close>

lemma generate_solid_from_surfaces_run:
  "generate_solid_from_surfaces ar sids w =
     (if sids = [] then (Inr None, w)
      else (case block_extents ar (b1 w) of
              Inl e \<Rightarrow> Inl e
            | Inr x \<Rightarrow> Inr (Some (entity_counter w + 8)),
            emitted w (solid_emitted ar (entity_counter w) (b1 w))))"
proof (cases "sids = []")
  case True
  then show ?thesis
    by (simp add: generate_solid_from_surfaces_def m_return_def)
next
  case False
  obtain min_pt max_pt where bb: "get_bounding_box ar (b1 w) = Inr (min_pt, max_pt)"
    using get_bounding_box_total by blast
  note loop = corner_loop_run [of "box_corners min_pt max_pt" "[]" w, unfolded box_corners_def]
  show ?thesis
    using False bb loop
    by (simp add: generate_solid_from_surfaces_def m_bind_def m_get_def m_lift_def Let_def
        box_corners_def py_index_def add_entity_run block_extents_def e_bind_def
        emitted_emitted emitted_fields m_return_def solid_emitted_def cp_def mk_def ac_simps
        split: sum.split
        del: for_loop.simps)
qed

lemma bind_f_write:
  "m_bind (f_write ev ol) k w =
     (if length (out_file w) < write_room ev then k () (w\<lparr>out_file := out_file w @ [ol]\<rparr>)
      else (Inl OSError, w))"
  by (simp add: f_write_def monad_defs)

lemma write_loop_run:
  "for_loop es () (\<lambda>e _. f_write ev (EntityLine e)) w =
     (if es = [] \<or> length (out_file w) + length es \<le> write_room ev
      then (Inr (), w\<lparr>out_file := out_file w @ map EntityLine es\<rparr>)
      else (Inl OSError,
            w\<lparr>out_file := out_file w @
                 map EntityLine (take (write_room ev - length (out_file w)) es)\<rparr>))"
proof (induction es arbitrary: w)
  case Nil
  then show ?case by (simp add: m_return_def)
next
  case (Cons e es)
  show ?case
  proof (cases "length (out_file w) < write_room ev")
    case True
    then obtain k where k: "write_room ev - length (out_file w) = Suc k"
      by (metis Suc_diff_Suc)
    with True have k': "write_room ev - Suc (length (out_file w)) = k" by simp
    from True have le: "length (out_file w) \<le> write_room ev" by simp
    show ?thesis using True k k' le
      by (simp add: bind_f_write Cons.IH)
  next
    case False
    then show ?thesis by (simp add: bind_f_write)
  qed
qed

lemma bind_write_loop:
  "m_bind (for_loop es () (\<lambda>e _. f_write ev (EntityLine e))) k w =
     (if es = [] \<or> length (out_file w) + length es \<le> write_room ev
      then k () (w\<lparr>out_file := out_file w @ map EntityLine es\<rparr>)
      else (Inl OSError,
            w\<lparr>out_file := out_file w @
                 map EntityLine (take (write_room ev - length (out_file w)) es)\<rparr>))"
  by (simp add: m_bind_def write_loop_run)

lemma bind_get: "m_bind (m_get g) k w = k (g w) w"
  by (simp add: m_bind_def m_get_def)

lemma bind_modify: "m_bind (m_modify g) k w = k () (g w)"
  by (simp add: m_bind_def m_modify_def)

lemma bind_raise: "m_bind (m_raise e) k w = (Inl e, w)"
  by (simp add: m_bind_def m_raise_def)

lemma bind_f_open:
  "m_bind (f_open ev filename) k w =
     (if CHR 0x00 \<in> set filename then (Inl ValueError, w)
      else if can_open ev filename then k () (w\<lparr>out_file := []\<rparr>)
      else (Inl OSError, w))"
  by (simp add: f_open_def bind_modify bind_raise)

lemmas write_simps = write_step_file_def bind_f_open bind_f_write bind_write_loop bind_get
  f_close_def m_return_def m_raise_def


lemma write_step_file_frame:
  "b1 (snd (write_step_file ev filename w)) = b1 w"
  "entity_counter (snd (write_step_file ev filename w)) = entity_counter w"
  "entities (snd (write_step_file ev filename w)) = entities w"
  by (simp_all add: write_simps)

lemma write_step_file_out:
  "CHR 0x00 \<notin> set filename \<Longrightarrow> can_open ev filename \<Longrightarrow>
   9 + length (entities w) \<le> write_room ev \<Longrightarrow>
   out_file (snd (write_step_file ev filename w)) = document ev filename (entities w)"
  by (simp add: write_simps document_def)

lemma bind_points_loop:
  "m_bind (for_loop ps acc points_body) k w =
     k (acc @ map e_id (point_records (entity_counter w) ps))
       (emitted w (point_records (entity_counter w) ps))"
  by (simp add: m_bind_def points_loop_run)

lemma bind_surfaces:
  "m_bind (generate_surfaces_from_lines ar) k w =
     k (if length (lines (b1 w)) \<ge> 3
        then [entity_counter w + 2 * int (length (take 4 (lines (b1 w)))) + 1] else [])
       (emitted w (surface_records ar (entity_counter w) (lines (b1 w))))"
  by (simp add: m_bind_def generate_surfaces_from_lines_run)

lemma bind_solid:
  "m_bind (generate_solid_from_surfaces ar sids) k w =
     (if sids = [] then k None w
      else (case block_extents ar (b1 w) of
              Inl e \<Rightarrow> (Inl e, emitted w (solid_emitted ar (entity_counter w) (b1 w)))
            | Inr x \<Rightarrow> k (Some (entity_counter w + 8))
                        (emitted w (solid_emitted ar (entity_counter w) (b1 w)))))"
  by (simp add: m_bind_def generate_solid_from_surfaces_run split: sum.split)

lemma surface_records_empty: "surface_records ar c ls = [] \<longleftrightarrow> \<not> 3 \<le> length ls"
  by (simp add: surface_records_def Let_def)

lemma length_point_records: "length (point_records c ps) = length ps"
  by (induction ps arbitrary: c) simp_all

text \<open>
  The whole call: the records are generated, and unless the arithmetic raised the
  document is written.
\<close>

lemma generate_step_file_run:
  "generate_step_file ar ev filename w =
     (case arith_error_of ar (b1 w) of
        Some e \<Rightarrow> (Inl e, generated ar w)
      | None \<Rightarrow> write_step_file ev filename (generated ar w))"
proof -
  have e: "emitted (w\<lparr>entity_counter := 1, entities := []\<rparr>) (all_records ar (b1 w)) =
      generated ar w"
    by (simp add: emitted_def generated_def)
  show ?thesis
    unfolding e [symmetric]
    by (simp add: generate_step_file_def bind_modify bind_get bind_points_loop bind_lines_loop
        bind_surfaces bind_solid emitted_emitted emitted_fields all_records_def
        arith_error_of_def step23_records_def
        Let_def length_point_records surface_records_empty emitted_Nil ac_simps
        split: option.split sum.split)
qed

lemma generate_entities:
  "entities (snd (generate_step_file ar ev filename w)) = all_records ar (b1 w)"
  by (simp add: generate_step_file_run write_step_file_frame generated_def split: option.split)

lemma generate_counter:
  "entity_counter (snd (generate_step_file ar ev filename w)) =
     1 + int (length (all_records ar (b1 w)))"
  by (simp add: generate_step_file_run write_step_file_frame generated_def split: option.split)

lemma generate_b1: "b1 (snd (generate_step_file ar ev filename w)) = b1 w"
  by (simp add: generate_step_file_run write_step_file_frame generated_def split: option.split)


section \<open>Properties of the generated records\<close>

lemma ids_from_append:
  "ids_from c (xs @ ys) = (ids_from c xs \<and> ids_from (c + int (length xs)) ys)"
  by (induction xs arbitrary: c) (simp_all add: ac_simps)

lemma ids_from_upto: "ids_from c es \<Longrightarrow> map e_id es = [c..c + int (length es) - 1]"
proof (induction es arbitrary: c)
  case Nil
  then show ?case by simp
next
  case (Cons e es)
  from Cons.prems have hd: "e_id e = c" and tl: "ids_from (c + 1) es" by simp_all
  have "[c..c + int (length (e # es)) - 1] = c # [c + 1..c + int (length (e # es)) - 1]"
    by (rule upto_rec1) simp
  also have "c + int (length (e # es)) - 1 = c + 1 + int (length es) - 1" by simp
  also have "[c + 1..c + 1 + int (length es) - 1] = map e_id es"
    using Cons.IH [OF tl] by (rule sym)
  finally show ?case using hd by simp
qed

lemma ids_from_point_records: "ids_from c (point_records c ps)"
  by (induction ps arbitrary: c) (simp_all add: cp_def mk_def)

lemma ids_from_line_records: "ids_from c (line_records c l q)"
  by (simp add: line_records_def cp_def mk_def split: option.split)

lemma ids_from_lines_emitted: "ids_from c (lines_emitted ar c ls)"
proof (induction ls arbitrary: c)
  case Nil
  then show ?case by simp
next
  case (Cons l ls)
  show ?case
  proof (cases "line_outcome ar l")
    case (Inl e)
    then show ?thesis by (simp add: cp_def mk_def)
  next
    case (Inr q)
    then show ?thesis by (simp add: ids_from_append ids_from_line_records Cons.IH)
  qed
qed

lemma ids_from_endpoint_records: "ids_from c (endpoint_records c ls)"
proof (induction ls arbitrary: c)
  case Nil
  then show ?case by simp
next
  case (Cons l ls)
  have "ids_from (c + 1 + 1) (endpoint_records (c + 2) ls)"
    using Cons.IH [of "c + 2"] by (simp add: add.assoc)
  then show ?case by (simp only: endpoint_records.simps ids_from.simps) (simp add: cp_def mk_def)
qed

lemma ids_from_surface_records: "ids_from c (surface_records ar c ls)"
  by (simp add: surface_records_def Let_def ids_from_append ids_from_endpoint_records
      length_endpoint_records mk_def)

lemma ids_from_solid_emitted: "ids_from c (solid_emitted ar c b)"
proof -
  obtain min_pt max_pt where "get_bounding_box ar b = Inr (min_pt, max_pt)"
    using get_bounding_box_total by blast
  then show ?thesis
    by (simp add: solid_emitted_def ids_from_append ids_from_point_records
        length_point_records box_corners_def cp_def mk_def split: sum.split)
qed

lemma ids_from_step23_records: "ids_from 1 (step23_records ar b)"
  by (simp add: step23_records_def ids_from_append ids_from_point_records
      ids_from_lines_emitted length_point_records)

lemma ids_from_all_records: "ids_from 1 (all_records ar b)"
  by (simp add: all_records_def Let_def ids_from_append ids_from_step23_records
      ids_from_surface_records ids_from_solid_emitted split: option.split)

lemma refs_cp: "refs (cp c p) = []"
  by (simp add: refs_def cp_def mk_def)

lemma refs_point_records: "e \<in> set (point_records c ps) \<Longrightarrow> refs e = []"
  by (induction ps arbitrary: c) (auto simp: refs_cp)

lemma refs_endpoint_records: "e \<in> set (endpoint_records c ls) \<Longrightarrow> refs e = []"
  by (induction ls arbitrary: c) (auto simp: refs_cp)

lemma refs_line_records:
  "1 \<le> c \<Longrightarrow> e \<in> set (line_records c l q) \<Longrightarrow> r \<in> set (refs e) \<Longrightarrow> 1 \<le> r \<and> r < e_id e"
  by (auto simp: line_records_def refs_def cp_def mk_def split: option.splits)

lemma refs_lines_emitted:
  "1 \<le> c \<Longrightarrow> e \<in> set (lines_emitted ar c ls) \<Longrightarrow> r \<in> set (refs e) \<Longrightarrow> 1 \<le> r \<and> r < e_id e"
proof (induction ls arbitrary: c)
  case Nil
  then show ?case by simp
next
  case (Cons l ls)
  show ?case
  proof (cases "line_outcome ar l")
    case (Inl x)
    with Cons.prems show ?thesis by (simp add: refs_cp)
  next
    case (Inr q)
    with Cons.prems(2) consider "e \<in> set (line_records c l q)"
      | "e \<in> set (lines_emitted ar (c + int (length (line_records c l q))) ls)"
      by auto
    then show ?thesis
    proof cases
      case 1
      then show ?thesis using refs_line_records Cons.prems by blast
    next
      case 2
      have "1 \<le> c + int (length (line_records c l q))" using Cons.prems(1) by simp
      then show ?thesis using Cons.IH 2 Cons.prems(3) by blast
    qed
  qed
qed

lemma refs_surface_records:
  "1 \<le> c \<Longrightarrow> e \<in> set (surface_records ar c ls) \<Longrightarrow> r \<in> set (refs e) \<Longrightarrow> 1 \<le> r \<and> r < e_id e"
  by (auto simp: surface_records_def Let_def refs_def mk_def dest: refs_endpoint_records
      split: if_splits)

lemma refs_solid_emitted:
  "1 \<le> c \<Longrightarrow> e \<in> set (solid_emitted ar c b) \<Longrightarrow> r \<in> set (refs e) \<Longrightarrow> 1 \<le> r \<and> r < e_id e"
proof -
  assume c: "1 \<le> c" and e: "e \<in> set (solid_emitted ar c b)" and r: "r \<in> set (refs e)"
  obtain min_pt max_pt where bb: "get_bounding_box ar b = Inr (min_pt, max_pt)"
    using get_bounding_box_total by blast
  from e bb consider "e \<in> set (point_records c (box_corners min_pt max_pt))"
    | ex ey ez where "e = mk (c + 8) ''BLOCK'' [Label, Ref c, Num ex, Num ey, Num ez]"
    by (auto simp: solid_emitted_def split: sum.splits)
  then show ?thesis
  proof cases
    case 1
    then show ?thesis using refs_point_records r by fastforce
  next
    case 2
    then show ?thesis using c r by (auto simp: refs_def mk_def)
  qed
qed

lemma refs_all_records:
  "e \<in> set (all_records ar b) \<Longrightarrow> r \<in> set (refs e) \<Longrightarrow> 1 \<le> r \<and> r < e_id e"
proof -
  assume e: "e \<in> set (all_records ar b)" and r: "r \<in> set (refs e)"
  let ?r23 = "step23_records ar b"
  let ?r4 = "surface_records ar (1 + int (length ?r23)) (lines b)"
  let ?r5 = "solid_emitted ar (1 + int (length ?r23) + int (length ?r4)) b"
  from e consider "e \<in> set (point_records 1 (points b))"
    | "e \<in> set (lines_emitted ar (1 + int (length (points b))) (lines b))"
    | "e \<in> set ?r4" | "e \<in> set ?r5"
    by (auto simp: all_records_def Let_def step23_records_def split: if_splits option.splits)
  then show ?thesis
  proof cases
    case 1
    then show ?thesis using refs_point_records r by fastforce
  next
    case 2
    then show ?thesis using refs_lines_emitted [of "1 + int (length (points b))"] r by simp
  next
    case 3
    then show ?thesis using refs_surface_records [of "1 + int (length ?r23)"] r by simp
  next
    case 4
    then show ?thesis
      using refs_solid_emitted [of "1 + int (length ?r23) + int (length ?r4)"] r by simp
  qed
qed

lemma count_type_append: "count_type t (xs @ ys) = count_type t xs + count_type t ys"
  by (simp add: count_type_def)

lemma count_type_Nil: "count_type t [] = 0"
  by (simp add: count_type_def)

lemma count_type_Cons:
  "count_type t (e # es) = (if t = e_type e then 1 else 0) + count_type t es"
  by (auto simp: count_type_def)

lemma e_type_cp: "e_type (cp c p) = ''CARTESIAN_POINT''"
  by (simp add: cp_def mk_def)

lemma e_type_mk: "e_type (mk c t a) = t"
  by (simp add: mk_def)

lemmas count_simps = count_type_append count_type_Nil count_type_Cons e_type_cp e_type_mk









text \<open>Below three segments there is neither surface nor solid, whatever the arithmetic does.\<close>

lemma all_records_few_lines:
  "length (lines b) < 3 \<Longrightarrow> all_records ar b = step23_records ar b"
  by (simp add: all_records_def Let_def surface_records_def split: option.split)



lemma lines_emitted_normalised:
  "\<forall>l \<in> set ls. \<exists>q. line_outcome ar l = Inr (Some q) \<Longrightarrow>
   length (lines_emitted ar c ls) = 4 * length ls \<and> lines_error ar ls = None"
proof (induction ls arbitrary: c)
  case Nil
  then show ?case by simp
next
  case (Cons l ls)
  from Cons.prems obtain q where q: "line_outcome ar l = Inr (Some q)" by auto
  have four: "length (line_records c l (Some q)) = 4"
    by (cases q) (simp add: line_records_def)
  from Cons.prems have "\<forall>l \<in> set ls. \<exists>q. line_outcome ar l = Inr (Some q)" by simp
  from Cons.IH [OF this] q four show ?case by simp
qed

lemma take_step23_all_records:
  "take (length (step23_records ar b)) (all_records ar b) = step23_records ar b"
  by (simp add: all_records_def Let_def split: option.split)

lemma all_records_cong:
  "points b = points b' \<Longrightarrow> lines b = lines b' \<Longrightarrow> all_records ar b = all_records ar b'"
proof -
  assume p: "points b = points b'" and l: "lines b = lines b'"
  have bb: "get_bounding_box ar b = get_bounding_box ar b'"
    by (simp add: get_bounding_box_def p)
  have be: "block_extents ar b = block_extents ar b'"
    by (simp add: block_extents_def bb)
  have se: "\<And>c. solid_emitted ar c b = solid_emitted ar c b'"
    unfolding solid_emitted_def bb be by (rule refl)
  have s23: "step23_records ar b = step23_records ar b'"
    by (simp add: step23_records_def p l)
  show ?thesis
    unfolding all_records_def s23 l se by (rule refl)
qed

text \<open>The first two loops of the call, run from the reset generator.\<close>

lemma steps_2_3_run:
  "case lines_error ar (lines b) of
     Some e \<Rightarrow>
       m_bind (for_loop (points b) [] points_body)
              (\<lambda>point_ids. for_loop (lines b) [] (lines_body ar))
         (w\<lparr>entity_counter := 1, entities := []\<rparr>) =
       (Inl e, w\<lparr>entity_counter := 1 + int (length (step23_records ar b)),
                  entities := step23_records ar b\<rparr>)
   | None \<Rightarrow>
       \<exists>ids. m_bind (for_loop (points b) [] points_body)
                    (\<lambda>point_ids. for_loop (lines b) [] (lines_body ar))
               (w\<lparr>entity_counter := 1, entities := []\<rparr>) =
             (Inr ids, w\<lparr>entity_counter := 1 + int (length (step23_records ar b)),
                          entities := step23_records ar b\<rparr>)"
proof -
  let ?w0 = "w\<lparr>entity_counter := 1, entities := []\<rparr>"
  let ?w1 = "emitted ?w0 (point_records 1 (points b))"
  have end_world: "emitted ?w1 (lines_emitted ar (entity_counter ?w1) (lines b)) =
      w\<lparr>entity_counter := 1 + int (length (step23_records ar b)),
        entities := step23_records ar b\<rparr>"
    by (simp add: emitted_def step23_records_def length_point_records)
  have start: "m_bind (for_loop (points b) [] points_body)
                    (\<lambda>point_ids. for_loop (lines b) [] (lines_body ar)) ?w0 =
      for_loop (lines b) [] (lines_body ar) ?w1"
    by (simp add: bind_points_loop)
  show ?thesis
    using lines_loop_run [where ar = ar and ls = "lines b" and acc = "[]" and w = ?w1]
    by (simp only: start end_world)
qed

section \<open>The three arithmetics and the concrete inputs, evaluated\<close>

lemma exact_arith_simps:
  "of_int_lit exact_arith i = real_of_int i"
  "py_sub exact_arith u v = Inr (u - v)"
  "py_add exact_arith u v = Inr (u + v)"
  "py_mul exact_arith u v = Inr (u * v)"
  "py_div exact_arith u v = (if v = 0 then Inl ZeroDivisionError else Inr (u / v))"
  "py_sqrt exact_arith v = (if v < 0 then Inl ValueError else Inr (sqrt v))"
  "a_less exact_arith u v = (u < v)"
  by (simp_all add: exact_arith_def py_sub_def py_add_def py_mul_def py_div_def py_sqrt_def
      as_error_def raised_def)


lemma underflow_arith_simps:
  "of_int_lit underflow_arith i = real_of_int i"
  "py_sub underflow_arith u v = Inr (u - v)"
  "py_add underflow_arith u v = Inr (u + v)"
  "py_mul underflow_arith u v = (if \<bar>u * v\<bar> < 1 / 2 ^ 1075 then Inr 0 else Inr (u * v))"
  "py_sqrt underflow_arith v = (if v < 0 then Inl ValueError else Inr (sqrt v))"
  "a_less underflow_arith u v = (u < v)"
  by (simp_all add: underflow_arith_def exact_arith_def py_sub_def py_add_def py_mul_def
      py_sqrt_def as_error_def raised_def)

lemma line_length_exact:
  "line_length exact_arith l =
     Inr (sqrt ((px (l_end l) - px (l_start l)) * (px (l_end l) - px (l_start l))
      + (py (l_end l) - py (l_start l)) * (py (l_end l) - py (l_start l))
      + (pz (l_end l) - pz (l_start l)) * (pz (l_end l) - pz (l_start l))))"
  by (simp add: line_length_def e_bind_def exact_arith_simps not_less)


lemma sqrt_100: "sqrt 100 = 10"
  by (rule real_sqrt_unique) simp_all

lemma scenario_outcome:
  "line_outcome exact_arith \<lparr>l_start = origin, l_end = \<lparr>px = 10, py = 0, pz = 0\<rparr>\<rparr> =
     Inr (Some (1, 0, 0, 10))"
  by (simp add: line_outcome_def line_length_exact e_bind_def exact_arith_simps origin_def
      sqrt_100)

lemma scenario_records:
  "all_records exact_arith scenario_b1 =
     [\<lparr>e_id = 1, e_type = ''CARTESIAN_POINT'', e_attrs = [Label, Coords 0 0 0]\<rparr>,
      \<lparr>e_id = 2, e_type = ''CARTESIAN_POINT'', e_attrs = [Label, Coords 0 0 0]\<rparr>,
      \<lparr>e_id = 3, e_type = ''DIRECTION'', e_attrs = [Label, Coords 1 0 0]\<rparr>,
      \<lparr>e_id = 4, e_type = ''VECTOR'', e_attrs = [Label, Ref 3, Num 10]\<rparr>,
      \<lparr>e_id = 5, e_type = ''LINE'', e_attrs = [Label, Ref 2, Ref 4]\<rparr>]"
  by (simp add: all_records_def step23_records_def scenario_b1_def scenario_outcome
      line_records_def surface_records_def Let_def cp_def mk_def)
    (simp add: origin_def)

lemma scenario_no_error: "arith_error_of exact_arith scenario_b1 = None"
  by (simp add: arith_error_of_def scenario_b1_def scenario_outcome)









lemma tiny_outcome: "line_outcome underflow_arith tiny_segment = Inr None"
  by (simp add: line_outcome_def line_length_def e_bind_def underflow_arith_simps
      tiny_segment_def origin_def)

lemma tiny_ends: "l_start tiny_segment = origin" "l_start tiny_segment \<noteq> l_end tiny_segment"
  by (simp_all add: tiny_segment_def origin_def)

lemma tiny_records:
  "all_records underflow_arith tiny_b1 =
     [\<lparr>e_id = 1, e_type = ''CARTESIAN_POINT'', e_attrs = [Label, Coords 0 0 0]\<rparr>]"
  by (simp add: all_records_def step23_records_def tiny_b1_def tiny_outcome tiny_ends
      line_records_def surface_records_def cp_def mk_def origin_def)

lemma tiny_no_error: "arith_error_of underflow_arith tiny_b1 = None"
  by (simp add: arith_error_of_def tiny_b1_def tiny_outcome)

section \<open>Which exceptions the arithmetic of a call can raise\<close>










section \<open>The claims\<close>

text \<open>
  C1. For every geometry and every arithmetic, one call of \<^verbatim>\<open>generate_step_file\<close> leaves
  a record list whose identifiers are 1, 2, ..., K in this order (strictly increasing
  from 1, no gap, no reuse), and every reference inside a record names an identifier
  that is at least 1 and strictly less than the record's own: no forward reference.
  This holds also for the list that a call ending in an exception leaves.
\<close>

theorem generate_ids_sequential_refs_backward:
  "map e_id (entities (snd (generate_step_file ar ev filename w))) =
     [1..int (length (entities (snd (generate_step_file ar ev filename w))))] \<and>
   (\<forall>e \<in> set (entities (snd (generate_step_file ar ev filename w))).
      \<forall>r \<in> set (refs e). 1 \<le> r \<and> r < e_id e)"
  using ids_from_upto [OF ids_from_all_records, of ar "b1 w"] refs_all_records [of _ ar "b1 w"]
  by (simp add: generate_entities)

theorem generate_ids_sequential_refs_backward_witness:
  "map e_id (entities (snd (generate_step_file exact_arith good_env ''out.step''
     (init_world scenario_b1)))) = [1..5] \<and>
   \<lparr>e_id = 5, e_type = ''LINE'', e_attrs = [Label, Ref 2, Ref 4]\<rparr>
     \<in> set (entities (snd (generate_step_file exact_arith good_env ''out.step''
          (init_world scenario_b1)))) \<and>
   4 \<in> set (refs \<lparr>e_id = 5, e_type = ''LINE'', e_attrs = [Label, Ref 2, Ref 4 :: real attr]\<rparr>) \<and>
   (1::int) \<le> 4 \<and>
   4 < e_id \<lparr>e_id = 5, e_type = ''LINE'', e_attrs = [Label, Ref 2, Ref 4 :: real attr]\<rparr>"
proof -
  let ?es = "entities (snd (generate_step_file exact_arith good_env ''out.step''
     (init_world scenario_b1)))"
  let ?ln = "\<lparr>e_id = 5, e_type = ''LINE'', e_attrs = [Label, Ref 2, Ref 4 :: real attr]\<rparr>"
  have es: "?es = all_records exact_arith scenario_b1"
    by (simp add: generate_entities init_world_def)
  have len: "int (length ?es) = 5"
    by (simp add: es scenario_records)
  have mem: "?ln \<in> set ?es"
    by (simp add: es scenario_records)
  have r: "4 \<in> set (refs ?ln)"
    by (simp add: refs_def)
  note inst = generate_ids_sequential_refs_backward
    [of exact_arith good_env "''out.step''" "init_world scenario_b1"]
  from inst have ids: "map e_id ?es = [1..int (length ?es)]" by (rule conjunct1)
  from inst have "\<forall>e \<in> set ?es. \<forall>r \<in> set (refs e). 1 \<le> r \<and> r < e_id e" by (rule conjunct2)
  with mem r have "1 \<le> (4::int) \<and> 4 < e_id ?ln" by blast
  with ids len mem r show ?thesis by simp
qed




text \<open>
  C3. The geometry with the single point (0,0,0) and the single segment from (0,0,0) to
  (10,0,0) yields exactly five records: CARTESIAN\_POINT 1 and 2 at (0,0,0), DIRECTION 3
  with (1,0,0), VECTOR 4 referring to 3 with magnitude 10, LINE 5 referring to 2 and 4;
  no PLANE and no BLOCK. The arithmetic of this input (10 - 0, 10 * 10, the root of 100,
  10 / 10) is exact in Python for ints and for floats. With a sink that takes 14 write
  calls the document written is the header, these five records and the trailer, unless
  the file name holds a NUL character, which \<^verbatim>\<open>open\<close> refuses.
\<close>

theorem scenario_five_records:
  "entities (snd (generate_step_file exact_arith ev filename (w\<lparr>b1 := scenario_b1\<rparr>))) =
     [\<lparr>e_id = 1, e_type = ''CARTESIAN_POINT'', e_attrs = [Label, Coords 0 0 0]\<rparr>,
      \<lparr>e_id = 2, e_type = ''CARTESIAN_POINT'', e_attrs = [Label, Coords 0 0 0]\<rparr>,
      \<lparr>e_id = 3, e_type = ''DIRECTION'', e_attrs = [Label, Coords 1 0 0]\<rparr>,
      \<lparr>e_id = 4, e_type = ''VECTOR'', e_attrs = [Label, Ref 3, Num 10]\<rparr>,
      \<lparr>e_id = 5, e_type = ''LINE'', e_attrs = [Label, Ref 2, Ref 4]\<rparr>] \<and>
   count_type ''PLANE''
     (entities (snd (generate_step_file exact_arith ev filename (w\<lparr>b1 := scenario_b1\<rparr>)))) = 0 \<and>
   count_type ''BLOCK''
     (entities (snd (generate_step_file exact_arith ev filename (w\<lparr>b1 := scenario_b1\<rparr>)))) = 0 \<and>
   points scenario_b1 = [\<lparr>px = 0, py = 0, pz = 0\<rparr>] \<and>
   lines scenario_b1 =
     [\<lparr>l_start = \<lparr>px = 0, py = 0, pz = 0\<rparr>, l_end = \<lparr>px = 10, py = 0, pz = 0\<rparr>\<rparr>] \<and>
   out_file (snd (generate_step_file exact_arith
       \<lparr>can_open = (\<lambda>f. True), write_room = 14, can_close = True, timestamp = ts\<rparr> filename
       (w\<lparr>b1 := scenario_b1\<rparr>))) =
     (if CHR 0x00 \<in> set filename then out_file w
      else document \<lparr>can_open = (\<lambda>f. True), write_room = 14, can_close = True, timestamp = ts\<rparr>
             filename
             (entities (snd (generate_step_file exact_arith ev filename (w\<lparr>b1 := scenario_b1\<rparr>)))))"
proof -
  let ?ev = "\<lparr>can_open = (\<lambda>f. True), write_room = 14, can_close = True, timestamp = ts\<rparr>"
  let ?w = "w\<lparr>b1 := scenario_b1\<rparr>"
  have es: "\<And>e. entities (snd (generate_step_file exact_arith e filename ?w)) =
      all_records exact_arith scenario_b1"
    by (simp add: generate_entities)
  have run: "generate_step_file exact_arith ?ev filename ?w =
      write_step_file ?ev filename (generated exact_arith ?w)"
    by (simp add: generate_step_file_run scenario_no_error)
  have out: "out_file (snd (generate_step_file exact_arith ?ev filename ?w)) =
      (if CHR 0x00 \<in> set filename then out_file w
       else document ?ev filename (all_records exact_arith scenario_b1))"
  proof (cases "CHR 0x00 \<in> set filename")
    case True
    then show ?thesis
      by (simp add: run write_step_file_def bind_f_open generated_def)
  next
    case False
    then show ?thesis
      by (simp add: run write_step_file_out generated_def scenario_records)
  qed
  have inp: "points scenario_b1 = [\<lparr>px = 0, py = 0, pz = 0\<rparr>] \<and>
      lines scenario_b1 =
        [\<lparr>l_start = \<lparr>px = 0, py = 0, pz = 0\<rparr>, l_end = \<lparr>px = 10, py = 0, pz = 0\<rparr>\<rparr>]"
    by (simp add: scenario_b1_def origin_def)
  have cnt: "count_type ''PLANE'' (all_records exact_arith scenario_b1) = 0 \<and>
      count_type ''BLOCK'' (all_records exact_arith scenario_b1) = 0"
    by (simp add: scenario_records count_simps)
  show ?thesis
    unfolding es out using inp cnt by (simp add: scenario_records)
qed




text \<open>
  C5, as stated, is false: the single segment from the origin to \<open>(2 ^ -600, 0, 0)\<close>,
  given as floats, has different ends, but the square of \<open>2 ^ -600\<close> underflows to
  0.0, the magnitude is 0.0, and the segment gets its start point only. The first two
  loops, and the whole call, leave one record where P + 3 S is 3.
\<close>

theorem steps_2_3_record_count_counterexample:
  "lines tiny_b1 = [tiny_segment] \<and> points tiny_b1 = [] \<and>
   l_start tiny_segment \<noteq> l_end tiny_segment \<and>
   length (entities (snd (m_bind (for_loop (points tiny_b1) [] points_body)
            (\<lambda>point_ids. for_loop (lines tiny_b1) [] (lines_body underflow_arith))
       ((init_world tiny_b1)\<lparr>entity_counter := 1, entities := []\<rparr>)))) = 1 \<and>
   length (entities (snd (generate_step_file underflow_arith good_env ''out.step''
       (init_world tiny_b1)))) = 1 \<and>
   length (points tiny_b1) + 3 * length (lines tiny_b1) = 3"
proof -
  have err: "lines_error underflow_arith (lines tiny_b1) = None"
    by (simp add: tiny_b1_def tiny_outcome)
  have s23: "step23_records underflow_arith tiny_b1 = all_records underflow_arith tiny_b1"
    by (simp add: all_records_few_lines tiny_b1_def)
  have ls: "lines tiny_b1 = [tiny_segment]"
    by (simp add: tiny_b1_def)
  have ps: "points tiny_b1 = []"
    by (simp add: tiny_b1_def)
  have ends: "l_start tiny_segment \<noteq> l_end tiny_segment"
    by (rule tiny_ends(2))
  from steps_2_3_run [where ar = underflow_arith and b = tiny_b1 and w = "init_world tiny_b1"]
  have loops: "length (entities (snd (m_bind (for_loop (points tiny_b1) [] points_body)
            (\<lambda>point_ids. for_loop (lines tiny_b1) [] (lines_body underflow_arith))
       ((init_world tiny_b1)\<lparr>entity_counter := 1, entities := []\<rparr>)))) = 1"
    by (simp only: err option.case) (auto simp: s23 tiny_records)
  have whole: "length (entities (snd (generate_step_file underflow_arith good_env ''out.step''
       (init_world tiny_b1)))) = 1"
    by (simp add: generate_entities init_world_def tiny_records)
  have bound: "length (points tiny_b1) + 3 * length (lines tiny_b1) = 3"
    by (simp add: tiny_b1_def)
  show ?thesis
    by (intro conjI) (rule ls ps ends loops whole bound)+
qed

text \<open>
  C5, amended. For a geometry with P points and S segments, each of which is normalised
  by the loop (its \<^verbatim>\<open>length()\<close> returns a magnitude greater than zero and the three
  divisions by it return), the loop over the points followed by the loop over the
  segments (steps 2 and 3, run from the reset generator) returns normally and leaves at
  least P + 3 S records; in fact exactly P + 4 S. These records are the first records of
  the list that the whole call leaves.
\<close>

theorem steps_2_3_record_count:
  "\<forall>l \<in> set (lines (b1 w)). \<exists>q. line_outcome ar l = Inr (Some q) \<Longrightarrow>
   \<exists>ids w'.
     m_bind (for_loop (points (b1 w)) [] points_body)
            (\<lambda>point_ids. for_loop (lines (b1 w)) [] (lines_body ar))
       (w\<lparr>entity_counter := 1, entities := []\<rparr>) = (Inr ids, w') \<and>
     length (points (b1 w)) + 3 * length (lines (b1 w)) \<le> length (entities w') \<and>
     length (entities w') = length (points (b1 w)) + 4 * length (lines (b1 w)) \<and>
     take (length (entities w')) (entities (snd (generate_step_file ar ev filename w))) = entities w'"
proof -
  assume nz: "\<forall>l \<in> set (lines (b1 w)). \<exists>q. line_outcome ar l = Inr (Some q)"
  let ?w' = "w\<lparr>entity_counter := 1 + int (length (step23_records ar (b1 w))),
                entities := step23_records ar (b1 w)\<rparr>"
  from lines_emitted_normalised [OF nz]
  have four: "\<And>c. length (lines_emitted ar c (lines (b1 w))) = 4 * length (lines (b1 w))"
    and err: "lines_error ar (lines (b1 w)) = None"
    by simp_all
  from steps_2_3_run [where ar = ar and b = "b1 w" and w = w]
  obtain ids where run:
    "m_bind (for_loop (points (b1 w)) [] points_body)
            (\<lambda>point_ids. for_loop (lines (b1 w)) [] (lines_body ar))
       (w\<lparr>entity_counter := 1, entities := []\<rparr>) = (Inr ids, ?w')"
    by (simp only: err option.case) blast
  have len: "length (step23_records ar (b1 w)) =
      length (points (b1 w)) + 4 * length (lines (b1 w))"
    by (simp add: step23_records_def length_point_records four)
  have pre: "take (length (step23_records ar (b1 w)))
      (entities (snd (generate_step_file ar ev filename w))) = step23_records ar (b1 w)"
    by (simp only: generate_entities take_step23_all_records)
  have "length (points (b1 w)) + 3 * length (lines (b1 w)) \<le> length (entities ?w')"
    using len by simp
  moreover have "length (entities ?w') = length (points (b1 w)) + 4 * length (lines (b1 w))"
    using len by simp
  moreover have "take (length (entities ?w')) (entities (snd (generate_step_file ar ev filename w)))
      = entities ?w'"
    using pre by simp
  ultimately show ?thesis using run by blast
qed

theorem steps_2_3_record_count_witness:
  "line_outcome exact_arith \<lparr>l_start = origin, l_end = \<lparr>px = 10, py = 0, pz = 0\<rparr>\<rparr> =
     Inr (Some (1, 0, 0, 10)) \<and>
   (\<exists>ids w'.
     m_bind (for_loop (points (b1 (init_world scenario_b1))) [] points_body)
            (\<lambda>point_ids. for_loop (lines (b1 (init_world scenario_b1))) [] (lines_body exact_arith))
       ((init_world scenario_b1)\<lparr>entity_counter := 1, entities := []\<rparr>) = (Inr ids, w') \<and>
     (4::nat) \<le> length (entities w') \<and> length (entities w') = 5)"
proof -
  have "\<forall>l \<in> set (lines (b1 (init_world scenario_b1))).
      \<exists>q. line_outcome exact_arith l = Inr (Some q)"
    by (simp add: init_world_def scenario_b1_def scenario_outcome)
  from steps_2_3_record_count [OF this, of good_env "''out.step''"]
  obtain ids w' where run:
      "m_bind (for_loop (points (b1 (init_world scenario_b1))) [] points_body)
              (\<lambda>point_ids. for_loop (lines (b1 (init_world scenario_b1))) []
                 (lines_body exact_arith))
         ((init_world scenario_b1)\<lparr>entity_counter := 1, entities := []\<rparr>) = (Inr ids, w')"
    and lower: "length (points (b1 (init_world scenario_b1))) +
        3 * length (lines (b1 (init_world scenario_b1))) \<le> length (entities w')"
    and exact: "length (entities w') = length (points (b1 (init_world scenario_b1))) +
        4 * length (lines (b1 (init_world scenario_b1)))"
    by blast
  from lower have "(4::nat) \<le> length (entities w')"
    by (simp add: init_world_def scenario_b1_def)
  moreover from exact have "length (entities w') = 5"
    by (simp add: init_world_def scenario_b1_def)
  ultimately show ?thesis using scenario_outcome run by blast
qed

text \<open>
  C6. The bounding box of a geometry without points is (origin, origin), the origin
  having the three coordinates 0; the bounding box of a geometry with the single point P
  is (P, P). Neither raises.
\<close>

theorem bounding_box_empty_and_single:
  "get_bounding_box ar (b\<lparr>points := []\<rparr>) =
     Inr (\<lparr>px = of_int_lit ar 0, py = of_int_lit ar 0, pz = of_int_lit ar 0\<rparr>,
          \<lparr>px = of_int_lit ar 0, py = of_int_lit ar 0, pz = of_int_lit ar 0\<rparr>) \<and>
   get_bounding_box ar (b\<lparr>points := [P]\<rparr>) = Inr (P, P) \<and>
   get_bounding_box exact_arith (c\<lparr>points := []\<rparr>) =
     Inr (\<lparr>px = 0, py = 0, pz = 0\<rparr>, \<lparr>px = 0, py = 0, pz = 0\<rparr>)"
  by (simp add: get_bounding_box_def e_bind_def exact_arith_simps)

text \<open>
  C7. The record list depends on the point and segment sequences only: two calls on
  geometries with the same points and the same segments leave the same records with the
  same identifiers and the same counter, whatever the generators held before, whatever
  the names, the sinks and the file names are; and a second call on the world the first
  call left gives the same records again.
\<close>

theorem generate_deterministic:
  "points (b1 w1) = points (b1 w2) \<Longrightarrow> lines (b1 w1) = lines (b1 w2) \<Longrightarrow>
   entities (snd (generate_step_file ar ev1 f1 w1)) =
     entities (snd (generate_step_file ar ev2 f2 w2)) \<and>
   entity_counter (snd (generate_step_file ar ev1 f1 w1)) =
     entity_counter (snd (generate_step_file ar ev2 f2 w2)) \<and>
   entities (snd (generate_step_file ar ev2 f2 (snd (generate_step_file ar ev1 f1 w1)))) =
     entities (snd (generate_step_file ar ev1 f1 w1))"
  using all_records_cong [of "b1 w1" "b1 w2" ar]
  by (simp add: generate_entities generate_counter generate_b1)

theorem generate_deterministic_witness:
  "points (b1 (init_world scenario_b1)) =
     points (b1 \<lparr>b1 = scenario_b1\<lparr>name := ''other''\<rparr>, entity_counter = 42,
                 entities = [\<lparr>e_id = 7, e_type = ''LINE'', e_attrs = []\<rparr>], out_file = []\<rparr>) \<and>
   lines (b1 (init_world scenario_b1)) =
     lines (b1 \<lparr>b1 = scenario_b1\<lparr>name := ''other''\<rparr>, entity_counter = 42,
                entities = [\<lparr>e_id = 7, e_type = ''LINE'', e_attrs = []\<rparr>], out_file = []\<rparr>) \<and>
   entities (snd (generate_step_file exact_arith good_env ''a.step'' (init_world scenario_b1))) =
     entities (snd (generate_step_file exact_arith (good_env\<lparr>can_open := (\<lambda>f. False)\<rparr>) ''b.step''
       \<lparr>b1 = scenario_b1\<lparr>name := ''other''\<rparr>, entity_counter = 42,
        entities = [\<lparr>e_id = 7, e_type = ''LINE'', e_attrs = []\<rparr>], out_file = []\<rparr>))"
proof -
  let ?w2 = "\<lparr>b1 = scenario_b1\<lparr>name := ''other''\<rparr>, entity_counter = 42,
              entities = [\<lparr>e_id = 7, e_type = ''LINE'', e_attrs = []\<rparr>], out_file = []\<rparr>"
  have p: "points (b1 (init_world scenario_b1)) = points (b1 ?w2)"
    by (simp add: init_world_def)
  have l: "lines (b1 (init_world scenario_b1)) = lines (b1 ?w2)"
    by (simp add: init_world_def)
  from generate_deterministic [OF p l, of exact_arith good_env "''a.step''"
      "good_env\<lparr>can_open := (\<lambda>f. False)\<rparr>" "''b.step''"]
  have "entities (snd (generate_step_file exact_arith good_env ''a.step'' (init_world scenario_b1))) =
      entities (snd (generate_step_file exact_arith (good_env\<lparr>can_open := (\<lambda>f. False)\<rparr>)
        ''b.step'' ?w2))"
    by (rule conjunct1)
  with p l show ?thesis by simp
qed






text \<open>
  C10. A call never changes the geometry it is given: the name, the point sequence and
  the segment sequence, with every coordinate in them, are after the call what they were
  before, whether the call returns or raises.
\<close>

theorem generate_leaves_geometry_unchanged:
  "b1 (snd (generate_step_file ar ev filename w)) = b1 w \<and>
   name (b1 (snd (generate_step_file ar ev filename w))) = name (b1 w) \<and>
   points (b1 (snd (generate_step_file ar ev filename w))) = points (b1 w) \<and>
   lines (b1 (snd (generate_step_file ar ev filename w))) = lines (b1 w)"
  by (simp add: generate_b1)


end
